theory Spec2Isabelle
  imports Main "HOL-Library.Sublist"
begin

section \<open>Text and the library types the importer relies on\<close>

text \<open>
  The importer \<^verbatim>\<open>rbcinvesting.py\<close> works on Python strings, on \<^verbatim>\<open>datetime.date\<close> and on
  \<^verbatim>\<open>decimal.Decimal\<close>. A Python string is modelled as a \<^typ>\<open>string\<close>; one \<^typ>\<open>char\<close> stands
  for one code point below 256. The library classes are modelled after the behaviour of
  the Python 3 standard library (for \<^verbatim>\<open>Decimal\<close>: the reference implementation under the default
  context, precision 28, rounding half-even, exponent limits 999999, traps on
  InvalidOperation, DivisionByZero and Overflow).
\<close>

datatype error =
    StrptimeValueError               \<comment> \<open>the ValueError of \<^verbatim>\<open>datetime.strptime\<close>\<close>
  | InvalidOperation                 \<comment> \<open>\<^verbatim>\<open>decimal.InvalidOperation\<close>\<close>
  | DivisionByZero                   \<comment> \<open>\<^verbatim>\<open>decimal.DivisionByZero\<close>\<close>
  | Overflow                         \<comment> \<open>\<^verbatim>\<open>decimal.Overflow\<close>\<close>
  | AssertionError "string option"   \<comment> \<open>a failed \<^verbatim>\<open>assert\<close>, with its message if it has one\<close>
  | AssertionErrorInt int            \<comment> \<open>the failed \<^verbatim>\<open>assert r == 0, r\<close>\<close>
  | ValueError string                \<comment> \<open>\<^verbatim>\<open>raise ValueError(message)\<close>\<close>
  | UnboundLocalError string         \<comment> \<open>a local variable read before it was assigned\<close>

definition bind :: "error + 'a \<Rightarrow> ('a \<Rightarrow> error + 'b) \<Rightarrow> error + 'b" where
  "bind m f = (case m of Inl e \<Rightarrow> Inl e | Inr x \<Rightarrow> f x)"

subsection \<open>Character classes\<close>

definition is_digit :: "char \<Rightarrow> bool" where
  "is_digit c = (c \<in> set ''0123456789'')"

text \<open>\<^verbatim>\<open>str.isspace\<close>, which decides what \<^verbatim>\<open>str.strip()\<close> removes.\<close>

definition is_space :: "char \<Rightarrow> bool" where
  "is_space c = ((of_char c :: nat) \<in> set [9, 10, 11, 12, 13, 28, 29, 30, 31, 32, 133, 160])"

text \<open>The class \<^verbatim>\<open>\w\<close> of a \<^verbatim>\<open>str\<close> pattern: alphanumeric code points and the underscore.\<close>

definition is_word :: "char \<Rightarrow> bool" where
  "is_word c =
     (c \<in> set ''abcdefghijklmnopqrstuvwxyzABCDEFGHIJKLMNOPQRSTUVWXYZ0123456789_'' \<or>
      (of_char c :: nat) \<in> set [170, 178, 179, 181, 185, 186, 188, 189, 190] \<or>
      (192 \<le> (of_char c :: nat) \<and> (of_char c :: nat) \<noteq> 215 \<and> (of_char c :: nat) \<noteq> 247))"

definition lower :: "char \<Rightarrow> char" where
  "lower c =
     (if c \<in> set ''ABCDEFGHIJKLMNOPQRSTUVWXYZ'' then char_of ((of_char c :: nat) + 32) else c)"

definition strip :: "string \<Rightarrow> string" where
  "strip s = rev (dropWhile is_space (rev (dropWhile is_space s)))"

definition digit_val :: "char \<Rightarrow> nat" where
  "digit_val c = of_char c - 48"

text \<open>\<^verbatim>\<open>int(s)\<close> on a string of decimal digits (the callers pass \<^verbatim>\<open>'0'\<close> for an empty one).\<close>

definition int_of_digits :: "string \<Rightarrow> nat" where
  "int_of_digits s = foldl (\<lambda>a c. 10 * a + digit_val c) 0 s"

text \<open>\<^verbatim>\<open>len(str(n))\<close> for a natural number.\<close>

fun ndigits :: "nat \<Rightarrow> nat" where
  "ndigits n = (if n < 10 then 1 else Suc (ndigits (n div 10)))"

declare ndigits.simps [simp del]

subsection \<open>Decimal\<close>

text \<open>
  A \<^verbatim>\<open>Decimal\<close> is a sign (\<open>True\<close> for negative), a coefficient and an exponent, or an
  infinity, or a NaN (sign, signalling flag, payload).
\<close>

datatype decimal =
    Finite bool nat int
  | Infinity bool
  | NaN bool bool nat

definition prec :: nat where "prec = 28"
definition Emax :: int where "Emax = 999999"
definition Emin :: int where "Emin = - 999999"
definition Etiny :: int where "Etiny = Emin - int prec + 1"
definition Etop :: int where "Etop = Emax - int prec + 1"

text \<open>
  The body of a numeric string after the sign, as the constructor's pattern reads it:
  digits, an optional fraction, an optional exponent, with a digit in the integer part or
  right after the point, and nothing left over. The result is the coefficient and the
  exponent. The exponent is read without a bound, as the reference implementation reads it;
  the C implementation refuses a numeric string whose exponent lies beyond its internal
  limit of 999999999999999999, so the model accepts such a string where that
  implementation raises InvalidOperation.
\<close>

definition parse_exponent :: "string \<Rightarrow> int option" where
  "parse_exponent s =
     (case s of
        [] \<Rightarrow> Some 0
      | c # t \<Rightarrow>
          if c \<noteq> CHR ''e'' then None
          else
            (let (neg, ds) =
                   (case t of
                      [] \<Rightarrow> (False, t)
                    | x # r \<Rightarrow>
                        if x = CHR ''-'' then (True, r)
                        else if x = CHR ''+'' then (False, r) else (False, t))
             in if ds = [] \<or> \<not> list_all is_digit ds then None
                else Some (if neg then - int (int_of_digits ds) else int (int_of_digits ds))))"

definition parse_number :: "string \<Rightarrow> (nat \<times> int) option" where
  "parse_number body =
     (let intpart = takeWhile is_digit body;
          r1 = dropWhile is_digit body;
          (fracpart, r2) =
            (case r1 of
               [] \<Rightarrow> ([], r1)
             | c # t \<Rightarrow>
                 if c = CHR ''.'' then (takeWhile is_digit t, dropWhile is_digit t)
                 else ([], r1))
      in if intpart = [] \<and> fracpart = [] then None
         else
           (case parse_exponent r2 of
              None \<Rightarrow> None
            | Some ex \<Rightarrow> Some (int_of_digits (intpart @ fracpart), ex - int (length fracpart))))"

text \<open>The NaN alternative of the pattern: an optional \<^verbatim>\<open>s\<close>, \<^verbatim>\<open>nan\<close>, diagnostic digits.\<close>

definition parse_nan :: "string \<Rightarrow> (bool \<times> nat) option" where
  "parse_nan body =
     (let (signal, r) =
            (case body of
               [] \<Rightarrow> (False, body)
             | c # t \<Rightarrow> if c = CHR ''s'' then (True, t) else (False, body))
      in if take 3 r = ''nan'' \<and> list_all is_digit (drop 3 r)
         then Some (signal, int_of_digits (drop 3 r)) else None)"

text \<open>
  \<^verbatim>\<open>Decimal(value)\<close> for a string: surrounding white space and underscores are removed, the
  pattern is matched ignoring case, and a string that does not match raises
  InvalidOperation.
\<close>

definition Decimal_str :: "string \<Rightarrow> error + decimal" where
  "Decimal_str v =
     (let s = map lower (filter (\<lambda>c. c \<noteq> CHR ''_'') (strip v));
          (sgn, body) =
            (case s of
               [] \<Rightarrow> (False, s)
             | c # r \<Rightarrow>
                 if c = CHR ''-'' then (True, r)
                 else if c = CHR ''+'' then (False, r) else (False, s))
      in case parse_number body of
           Some (c, e) \<Rightarrow> Inr (Finite sgn c e)
         | None \<Rightarrow>
             if body = ''inf'' \<or> body = ''infinity'' then Inr (Infinity sgn)
             else
               (case parse_nan body of
                  Some (signal, diag) \<Rightarrow> Inr (NaN sgn signal diag)
                | None \<Rightarrow> Inl InvalidOperation))"

text \<open>\<^verbatim>\<open>Decimal(n)\<close> for a non-negative \<^verbatim>\<open>int\<close>, as the operators convert an \<^verbatim>\<open>int\<close> operand.\<close>

definition Decimal_int :: "nat \<Rightarrow> decimal" where
  "Decimal_int n = Finite False n 0"

text \<open>\<^verbatim>\<open>bool(d)\<close>: false exactly for a finite zero.\<close>

fun Decimal_bool :: "decimal \<Rightarrow> bool" where
  "Decimal_bool (Finite s c e) = (c \<noteq> 0)"
| "Decimal_bool (Infinity s) = True"
| "Decimal_bool (NaN s sig p) = True"

text \<open>
  \<^verbatim>\<open>d == s\<close> for a \<^verbatim>\<open>Decimal\<close> and a \<^verbatim>\<open>str\<close>: \<^verbatim>\<open>Decimal.__eq__\<close> does not convert a string, and
  neither does \<^verbatim>\<open>str.__eq__\<close> convert a \<^verbatim>\<open>Decimal\<close>, so the comparison falls back to identity of
  two distinct objects.
\<close>

definition Decimal_eq_str :: "decimal \<Rightarrow> string \<Rightarrow> bool" where
  "Decimal_eq_str d s = False"

text \<open>
  Rounding of a result to the context: a NaN keeps the last 28 digits of its payload, a
  zero gets its exponent clamped, a result above the exponent limit raises Overflow, and a
  coefficient of more than 28 digits (or a subnormal one) is rounded half-even.
\<close>

definition Decimal_fix :: "decimal \<Rightarrow> error + decimal" where
  "Decimal_fix d =
     (case d of
        NaN s sig p \<Rightarrow> Inr (NaN s sig (p mod 10 ^ prec))
      | Infinity s \<Rightarrow> Inr d
      | Finite s c e \<Rightarrow>
          if c = 0 then Inr (Finite s 0 (min (max e Etiny) Emax))
          else
            (let exp_min0 = int (ndigits c) + e - int prec
             in if exp_min0 > Etop then Inl Overflow
                else
                  (let exp_min = (if exp_min0 < Etiny then Etiny else exp_min0)
                   in if e < exp_min then
                        (let k = nat (exp_min - e);
                             q = c div 10 ^ k;
                             r = c mod 10 ^ k;
                             up = (2 * r > 10 ^ k \<or> (2 * r = 10 ^ k \<and> odd q));
                             coeff = (if up then q + 1 else q);
                             (coeff', exp') =
                               (if up \<and> ndigits coeff > prec then (coeff div 10, exp_min + 1)
                                else (coeff, exp_min))
                         in if exp' > Etop then Inl Overflow
                            else Inr (Finite s coeff' exp'))
                      else Inr d)))"

fun is_special :: "decimal \<Rightarrow> bool" where
  "is_special (Finite s c e) = False"
| "is_special d = True"

fun sign_of :: "decimal \<Rightarrow> bool" where
  "sign_of (Finite s c e) = s"
| "sign_of (Infinity s) = s"
| "sign_of (NaN s sig p) = s"

text \<open>
  The NaN rule of every operation: a signalling NaN operand raises InvalidOperation, a
  quiet one is the result; \<open>None\<close> when neither operand is a NaN.
\<close>

fun check_nans :: "decimal \<Rightarrow> decimal \<Rightarrow> (error + decimal) option" where
  "check_nans (NaN s True p) other = Some (Inl InvalidOperation)"
| "check_nans self (NaN s True p) = Some (Inl InvalidOperation)"
| "check_nans (NaN s False p) other = Some (Decimal_fix (NaN s False p))"
| "check_nans self (NaN s False p) = Some (Decimal_fix (NaN s False p))"
| "check_nans self other = None"

text \<open>
  The loop of an exact division that brings the exponent as close to the ideal one as the
  trailing zeros of the coefficient allow.
\<close>

function reduce_exact :: "nat \<Rightarrow> int \<Rightarrow> int \<Rightarrow> nat \<times> int" where
  "reduce_exact coeff ex ideal_exp =
     (if ex < ideal_exp \<and> coeff mod 10 = 0 then reduce_exact (coeff div 10) (ex + 1) ideal_exp
      else (coeff, ex))"
  by pat_completeness auto
termination
  by (relation "measure (\<lambda>(c, e, i). nat (i - e))") auto

declare reduce_exact.simps [simp del]

text \<open>\<^verbatim>\<open>self / other\<close>.\<close>

fun Decimal_truediv :: "decimal \<Rightarrow> decimal \<Rightarrow> error + decimal" where
  "Decimal_truediv (Finite s1 c1 e1) (Finite s2 c2 e2) =
     (if c2 = 0 then (if c1 = 0 then Inl InvalidOperation else Inl DivisionByZero)
      else if c1 = 0 then Decimal_fix (Finite (s1 \<noteq> s2) 0 (e1 - e2))
      else
        (let shift = int (ndigits c2) - int (ndigits c1) + int prec + 1;
             ex = e1 - e2 - shift;
             (coeff, remainder) =
               (if shift \<ge> 0 then ((c1 * 10 ^ nat shift) div c2, (c1 * 10 ^ nat shift) mod c2)
                else (c1 div (c2 * 10 ^ nat (- shift)), c1 mod (c2 * 10 ^ nat (- shift))));
             (coeff', ex') =
               (if remainder \<noteq> 0 then ((if coeff mod 5 = 0 then coeff + 1 else coeff), ex)
                else reduce_exact coeff ex (e1 - e2))
         in Decimal_fix (Finite (s1 \<noteq> s2) coeff' ex')))"
| "Decimal_truediv self other =
     (case check_nans self other of
        Some r \<Rightarrow> r
      | None \<Rightarrow>
          (case (self, other) of
             (Infinity s1, Infinity s2) \<Rightarrow> Inl InvalidOperation
           | (Infinity s1, _) \<Rightarrow> Inr (Infinity (s1 \<noteq> sign_of other))
           | _ \<Rightarrow> Inr (Finite (sign_of self \<noteq> sign_of other) 0 Etiny)))"

text \<open>\<^verbatim>\<open>self * other\<close>.\<close>

fun Decimal_mul :: "decimal \<Rightarrow> decimal \<Rightarrow> error + decimal" where
  "Decimal_mul (Finite s1 c1 e1) (Finite s2 c2 e2) = Decimal_fix (Finite (s1 \<noteq> s2) (c1 * c2) (e1 + e2))"
| "Decimal_mul self other =
     (case check_nans self other of
        Some r \<Rightarrow> r
      | None \<Rightarrow>
          if Decimal_bool self \<and> Decimal_bool other
          then Inr (Infinity (sign_of self \<noteq> sign_of other))
          else Inl InvalidOperation)"

text \<open>\<^verbatim>\<open>-self\<close>: the negation of a zero is the positive zero.\<close>

fun Decimal_neg :: "decimal \<Rightarrow> error + decimal" where
  "Decimal_neg (Finite s c e) = Decimal_fix (Finite (if c = 0 then False else \<not> s) c e)"
| "Decimal_neg (Infinity s) = Inr (Infinity (\<not> s))"
| "Decimal_neg (NaN s sig p) = (if sig then Inl InvalidOperation else Decimal_fix (NaN s False p))"

text \<open>\<^verbatim>\<open>str(n)\<close> for a natural number, and \<^verbatim>\<open>str(d)\<close> for a \<^verbatim>\<open>Decimal\<close> (also what \<^verbatim>\<open>'{}'.format(d)\<close> gives).\<close>

definition digit_char :: "nat \<Rightarrow> char" where
  "digit_char d = char_of (48 + d)"

fun str_nat :: "nat \<Rightarrow> string" where
  "str_nat n = (if n < 10 then [digit_char n] else str_nat (n div 10) @ [digit_char (n mod 10)])"

declare str_nat.simps [simp del]

definition Decimal_to_str :: "decimal \<Rightarrow> string" where
  "Decimal_to_str d =
     (case d of
        Infinity s \<Rightarrow> (if s then ''-'' else []) @ ''Infinity''
      | NaN s sig p \<Rightarrow>
          (if s then ''-'' else []) @ (if sig then ''sNaN'' else ''NaN'') @
          (if p = 0 then [] else str_nat p)
      | Finite s c e \<Rightarrow>
          (let digits = str_nat c;
               leftdigits = e + int (length digits);
               dotplace = (if e \<le> 0 \<and> leftdigits > - 6 then leftdigits else 1);
               (intpart, fracpart) =
                 (if dotplace \<le> 0
                  then (''0'', ''.'' @ replicate (nat (- dotplace)) (CHR ''0'') @ digits)
                  else if dotplace \<ge> int (length digits)
                  then (digits @ replicate (nat (dotplace - int (length digits))) (CHR ''0''), [])
                  else (take (nat dotplace) digits, ''.'' @ drop (nat dotplace) digits));
               ex =
                 (if leftdigits = dotplace then []
                  else ''E'' @ (if leftdigits - dotplace < 0 then ''-'' else ''+'') @
                       str_nat (nat \<bar>leftdigits - dotplace\<bar>))
           in (if s then ''-'' else []) @ intpart @ fracpart @ ex))"

subsection \<open>Dates\<close>

datatype datetime_date = Date (year: nat) (month: nat) (day: nat)

definition is_leap :: "nat \<Rightarrow> bool" where
  "is_leap y = (y mod 4 = 0 \<and> (y mod 100 \<noteq> 0 \<or> y mod 400 = 0))"

definition days_in_month :: "nat \<Rightarrow> nat \<Rightarrow> nat" where
  "days_in_month y m =
     (if m = 2 then (if is_leap y then 29 else 28)
      else if m \<in> set [4, 6, 9, 11] then 30 else 31)"

text \<open>
  The directives of \<^verbatim>\<open>strptime\<close>: \<^verbatim>\<open>%m\<close> is \<^verbatim>\<open>1[0-2]|0[1-9]|[1-9]\<close> and \<^verbatim>\<open>%d\<close> is
  \<^verbatim>\<open>3[0-1]|[1-2]\d|0[1-9]|[1-9]| [1-9]\<close>; each returns the number read and the rest of the text.
\<close>

fun match_month :: "string \<Rightarrow> (nat \<times> string) option" where
  "match_month (a # b # r) =
     (if a = CHR ''1'' \<and> b \<in> set ''012'' then Some (10 + digit_val b, r)
      else if a = CHR ''0'' \<and> b \<in> set ''123456789'' then Some (digit_val b, r)
      else if a \<in> set ''123456789'' then Some (digit_val a, b # r)
      else None)"
| "match_month [a] = (if a \<in> set ''123456789'' then Some (digit_val a, []) else None)"
| "match_month [] = None"

fun match_day :: "string \<Rightarrow> (nat \<times> string) option" where
  "match_day (a # b # r) =
     (if a = CHR ''3'' \<and> b \<in> set ''01'' then Some (30 + digit_val b, r)
      else if a \<in> set ''12'' \<and> is_digit b then Some (10 * digit_val a + digit_val b, r)
      else if a = CHR ''0'' \<and> b \<in> set ''123456789'' then Some (digit_val b, r)
      else if a \<in> set ''123456789'' then Some (digit_val a, b # r)
      else if a = CHR '' '' \<and> b \<in> set ''123456789'' then Some (digit_val b, r)
      else None)"
| "match_day [a] = (if a \<in> set ''123456789'' then Some (digit_val a, []) else None)"
| "match_day [] = None"

text \<open>
  \<^verbatim>\<open>datetime.datetime.strptime(s, '%Y-%m-%d').date()\<close>: four digits, a month, a day, nothing
  left over, and a date that exists (years start at 1).
\<close>

definition strptime :: "string \<Rightarrow> error + datetime_date" where
  "strptime s =
     (if length s < 5 \<or> \<not> list_all is_digit (take 4 s) \<or> s ! 4 \<noteq> CHR ''-''
      then Inl StrptimeValueError
      else
        (case match_month (drop 5 s) of
           None \<Rightarrow> Inl StrptimeValueError
         | Some (m, r) \<Rightarrow>
             (case r of
                [] \<Rightarrow> Inl StrptimeValueError
              | c # r' \<Rightarrow>
                  if c \<noteq> CHR ''-'' then Inl StrptimeValueError
                  else
                    (case match_day r' of
                       None \<Rightarrow> Inl StrptimeValueError
                     | Some (d, rest) \<Rightarrow>
                         (let y = int_of_digits (take 4 s)
                          in if rest \<noteq> [] \<or> y < 1 \<or> d > days_in_month y m
                             then Inl StrptimeValueError
                             else Inr (Date y m d))))))"

text \<open>\<^verbatim>\<open>str(date)\<close>, the ISO form \<^verbatim>\<open>%04d-%02d-%02d\<close>.\<close>

definition zfill :: "nat \<Rightarrow> string \<Rightarrow> string" where
  "zfill w s = replicate (w - length s) (CHR ''0'') @ s"

definition isoformat :: "datetime_date \<Rightarrow> string" where
  "isoformat d =
     zfill 4 (str_nat (year d)) @ ''-'' @ zfill 2 (str_nat (month d)) @ ''-'' @
     zfill 2 (str_nat (day d))"

section \<open>Rows\<close>

text \<open>
  A row is the named tuple the CSV reader yields, with the columns of the statement.
  \<^verbatim>\<open>fixup_row\<close> replaces the date and number fields by typed values, so the row type is
  parametric in both: a raw row holds text everywhere.
\<close>

record ('d, 'n) row =
  action :: string
  symbol :: string
  description :: string
  date :: 'd
  settlement :: 'd
  quantity :: 'n
  price :: 'n
  amount :: 'n
  currency :: string

type_synonym raw_row = "(string, string) row"
type_synonym canonical_row = "(datetime_date, decimal) row"

subsection \<open>decimal\<close>

datatype strord = Str string | Dec decimal

definition decimal :: "strord \<Rightarrow> error + decimal" where
  "decimal strord =
     (case strord of
        Dec d \<Rightarrow> Inr d
      | Str s \<Rightarrow>
          if s = [] then Inr (Finite False 0 0)
          else Decimal_str (filter (\<lambda>c. c \<noteq> CHR '','') s))"

subsection \<open>fixup\_row\<close>

text \<open>\<^verbatim>\<open>re.match('1000THS', s)\<close>: the literal pattern, anchored at the start of the text.\<close>

definition re_match_1000THS :: "string \<Rightarrow> bool" where
  "re_match_1000THS s = prefix ''1000THS'' s"

text \<open>
  \<^verbatim>\<open>re.search(r'\bDIST\b', s)\<close>: the scan keeps whether the character before the current
  position is a word character; the word starts at a boundary and ends at one.
\<close>

fun search_DIST :: "bool \<Rightarrow> string \<Rightarrow> bool" where
  "search_DIST w [] = False"
| "search_DIST w (c # cs) =
     ((\<not> w \<and> prefix ''DIST'' (c # cs) \<and>
       (case drop 4 (c # cs) of [] \<Rightarrow> True | d # r \<Rightarrow> \<not> is_word d))
      \<or> search_DIST (is_word c) cs)"

definition re_search_DIST :: "string \<Rightarrow> bool" where
  "re_search_DIST s = search_DIST False s"

definition fixup_row :: "raw_row \<Rightarrow> error + canonical_row" where
  "fixup_row row =
     bind (strptime (date row)) (\<lambda>date'.
     bind (strptime (settlement row)) (\<lambda>settlement'.
     bind (decimal (Str (quantity row))) (\<lambda>quantity'.
     bind (decimal (Str (price row))) (\<lambda>price'.
     bind (decimal (Str (amount row))) (\<lambda>amount'.
     bind (if re_match_1000THS (description row)
           then Decimal_truediv quantity' (Decimal_int 1000)
           else Inr quantity') (\<lambda>quantity''.
     bind (if Decimal_eq_str amount' ''0''
           then bind (decimal (Dec quantity'')) (\<lambda>q.
                bind (decimal (Dec price')) (\<lambda>p. Decimal_mul q p))
           else Inr amount') (\<lambda>amount''.
     (let action' =
            (if action row = [] then
               (if re_search_DIST (description row) then ''DIST'' else action row)
             else action row)
      in if action' = [] then Inl (AssertionError (Some (description row)))
         else Inr \<lparr>action = action', symbol = symbol row, description = description row,
                   date = date', settlement = settlement', quantity = quantity'',
                   price = price', amount = amount'', currency = currency row\<rparr>))))))))"

section \<open>Ledger entries\<close>

text \<open>
  Modelled from the spec: the ledger types of \<^verbatim>\<open>beancount2.core.data\<close> (\<^verbatim>\<open>Account\<close>,
  \<^verbatim>\<open>Posting\<close>, \<^verbatim>\<open>Transaction\<close>, \<^verbatim>\<open>FLAG_IMPORT\<close>) and its helpers \<^verbatim>\<open>account_from_name\<close>,
  \<^verbatim>\<open>create_simple_posting\<close> and \<^verbatim>\<open>create_simple_posting_with_cost\<close> are not among the
  source files. A posting is an account, a signed number, a currency or commodity and an
  optional cost (unit cost and cost currency); a transaction is a source location, a date,
  a narration and an ordered list of postings; each helper appends one posting to the
  entry it is given.
\<close>

datatype account = Account (name: string)

definition account_from_name :: "string \<Rightarrow> account" where
  "account_from_name n = Account n"

datatype flag = FLAG_IMPORT

record posting =
  posting_account :: account
  posting_number :: decimal
  posting_currency :: string
  posting_cost :: "(decimal \<times> string) option"

record transaction =
  fileloc :: "string \<times> nat"
  entry_date :: datetime_date
  entry_flag :: flag
  payee :: "string option"
  narration :: string
  tags :: "string list option"
  links :: "string list option"
  postings :: "posting list"

definition create_simple_posting ::
  "transaction \<Rightarrow> account \<Rightarrow> decimal \<Rightarrow> string \<Rightarrow> transaction" where
  "create_simple_posting entry acc number cur =
     entry\<lparr>postings := postings entry @
       [\<lparr>posting_account = acc, posting_number = number, posting_currency = cur,
         posting_cost = None\<rparr>]\<rparr>"

definition create_simple_posting_with_cost ::
  "transaction \<Rightarrow> account \<Rightarrow> decimal \<Rightarrow> string \<Rightarrow> decimal \<Rightarrow> string \<Rightarrow> transaction" where
  "create_simple_posting_with_cost entry acc number cur cost_number cost_currency =
     entry\<lparr>postings := postings entry @
       [\<lparr>posting_account = acc, posting_number = number, posting_currency = cur,
         posting_cost = Some (cost_number, cost_currency)\<rparr>]\<rparr>"

text \<open>
  The account mapping \<^verbatim>\<open>config\<close>: the roles that \<^verbatim>\<open>CONFIG_ACCOUNTS\<close> declares for a
  spreadsheet, each resolved to an account.
\<close>

record config =
  FILE :: account
  cash :: account
  positions :: account
  fees :: account
  commission :: account
  interest :: account
  dividend :: account
  transfer :: account

section \<open>import\_excel\_file\<close>

subsection \<open>The amounts found in the description\<close>

text \<open>
  \<^verbatim>\<open>re.search(r'\$([0-9,]+\.[0-9]+)', s)\<close>. \<open>match_amount\<close> is the pattern at the head of the
  text: the longest run of digits and commas after the dollar sign, a point, the longest
  run of digits; a shorter run cannot be followed by the point. The search takes the first
  position where the pattern matches and returns group 1.
\<close>

definition is_digit_or_comma :: "char \<Rightarrow> bool" where
  "is_digit_or_comma c = (is_digit c \<or> c = CHR '','')"

definition match_amount :: "string \<Rightarrow> string option" where
  "match_amount s =
     (case s of
        [] \<Rightarrow> None
      | c # t \<Rightarrow>
          if c \<noteq> CHR ''$'' then None
          else
            (let run = takeWhile is_digit_or_comma t;
                 r = dropWhile is_digit_or_comma t
             in if run = [] then None
                else
                  (case r of
                     [] \<Rightarrow> None
                   | p # u \<Rightarrow>
                       if p \<noteq> CHR ''.'' then None
                       else
                         (let frac = takeWhile is_digit u
                          in if frac = [] then None else Some (run @ ''.'' @ frac)))))"

fun re_search_amount :: "string \<Rightarrow> string option" where
  "re_search_amount [] = None"
| "re_search_amount (c # cs) =
     (case match_amount (c # cs) of Some g \<Rightarrow> Some g | None \<Rightarrow> re_search_amount cs)"

text \<open>\<^verbatim>\<open>description_amount = decimal(mo.group(1)) if mo else None\<close>.\<close>

definition description_amount :: "string \<Rightarrow> error + decimal option" where
  "description_amount s =
     (case re_search_amount s of
        None \<Rightarrow> Inr None
      | Some g \<Rightarrow> bind (decimal (Str g)) (\<lambda>d. Inr (Some d)))"

text \<open>\<^verbatim>\<open>re.search(r'\b([0-9]+) SHS', s)\<close>, scanned like the search for \<^verbatim>\<open>DIST\<close>.\<close>

definition match_shares :: "string \<Rightarrow> string option" where
  "match_shares s =
     (let ds = takeWhile is_digit s; r = dropWhile is_digit s
      in if ds \<noteq> [] \<and> prefix '' SHS'' r then Some ds else None)"

fun search_shares :: "bool \<Rightarrow> string \<Rightarrow> string option" where
  "search_shares w [] = None"
| "search_shares w (c # cs) =
     (case (if w then None else match_shares (c # cs)) of
        Some g \<Rightarrow> Some g
      | None \<Rightarrow> search_shares (is_word c) cs)"

definition description_shares :: "string \<Rightarrow> error + decimal option" where
  "description_shares s =
     (case search_shares False s of
        None \<Rightarrow> Inr None
      | Some g \<Rightarrow> bind (decimal (Str g)) (\<lambda>d. Inr (Some d)))"

subsection \<open>The transaction of one row\<close>

text \<open>\<^verbatim>\<open>sep.join(parts)\<close>.\<close>

fun join :: "string \<Rightarrow> string list \<Rightarrow> string" where
  "join sep [] = []"
| "join sep [x] = x"
| "join sep (x # y # r) = x @ sep @ join sep (y # r)"

text \<open>The truth value of \<^verbatim>\<open>description_amount\<close> in an \<^verbatim>\<open>assert\<close>: \<^verbatim>\<open>None\<close> and a zero are false.\<close>

definition truthy :: "decimal option \<Rightarrow> bool" where
  "truthy v = (case v of None \<Rightarrow> False | Some d \<Rightarrow> Decimal_bool d)"

text \<open>Reading a local variable of the function: \<open>None\<close> stands for not assigned yet.\<close>

definition read_local :: "string \<Rightarrow> 'a option \<Rightarrow> error + 'a" where
  "read_local var v = (case v of None \<Rightarrow> Inl (UnboundLocalError var) | Some x \<Rightarrow> Inr x)"

text \<open>
  The chain of \<^verbatim>\<open>if\<close>/\<^verbatim>\<open>elif\<close> on \<^verbatim>\<open>row.action\<close> that adds the postings. It returns the entry
  and the list \<^verbatim>\<open>extra_narration\<close>.
\<close>

definition add_postings ::
  "config \<Rightarrow> account option \<Rightarrow> decimal option \<Rightarrow> canonical_row \<Rightarrow> transaction \<Rightarrow>
     error + (transaction \<times> string list)" where
  "add_postings config account_position descr_amount row entry =
     (if action row = ''ADJ RR'' then Inr (entry, [])
      else if action row = ''RTC RR'' then Inr (entry, [])
      else if action row = ''EXH AB'' then Inr (entry, [])
      else if action row = ''DIV F6'' then
        (case descr_amount of
           None \<Rightarrow> Inl (AssertionError None)
         | Some da \<Rightarrow>
             if \<not> Decimal_bool da then Inl (AssertionError None)
             else
               bind (read_local ''account_position'' account_position) (\<lambda>ap.
               (let entry1 = create_simple_posting_with_cost entry ap
                               (quantity row) (symbol row) da (currency row)
                in bind (Decimal_mul (quantity row) da) (\<lambda>m.
                   bind (Decimal_neg m) (\<lambda>n.
                   Inr (create_simple_posting entry1 (dividend config) n (currency row),
                        []))))))
      else if action row \<in> set [''Buy'', ''Sell''] then
        bind (read_local ''account_position'' account_position) (\<lambda>ap.
        (let entry1 = create_simple_posting_with_cost entry ap
                        (quantity row) (symbol row) (price row) (currency row)
         in Inr (create_simple_posting entry1 (cash config) (amount row) (currency row), [])))
      else if action row \<in> set [''SEL FF'', ''PUR FF''] then
        (if truthy descr_amount then Inl (AssertionError None)
         else
           bind (read_local ''account_position'' account_position) (\<lambda>ap.
           Inr (create_simple_posting entry ap (quantity row) (symbol row), [])))
      else if action row = ''DIST'' then
        (if truthy descr_amount then Inl (AssertionError None)
         else
           bind (Decimal_neg (amount row)) (\<lambda>n.
           (let entry1 = create_simple_posting entry (dividend config) n (currency row);
                entry2 = create_simple_posting entry1 (cash config) (amount row) (currency row)
            in Inr (entry2, [Decimal_to_str (price row) @ '' per share'']))))
      else Inl (ValueError (''Unknown action: '' @ [CHR 0x27] @ action row @ [CHR 0x27])))"

text \<open>
  The body of the loop of \<^verbatim>\<open>import_excel_file\<close> for one fixed-up row. \<open>account_position\<close>
  is the local variable of that name as the previous rows left it; the result is the entry
  appended to \<^verbatim>\<open>new_entries\<close> and the variable as this row leaves it. The list
  \<^verbatim>\<open>extra_narration\<close> is not read after the chain.
\<close>

definition synthesize ::
  "string \<Rightarrow> config \<Rightarrow> nat \<Rightarrow> account option \<Rightarrow> canonical_row \<Rightarrow>
     error + (transaction \<times> account option)" where
  "synthesize filename config index account_position row =
     (let fileloc' = (filename, index);
          settlement' =
            (if settlement row = date row then None
             else Some (''Settlement: '' @ isoformat (settlement row)))
      in bind (description_amount (description row)) (\<lambda>descr_amount.
         bind (description_shares (description row)) (\<lambda>descr_shares.
         (let narration' =
                join '' -- ''
                  (filter (\<lambda>s. s \<noteq> [])
                     ([action row, symbol row, description row] @
                      (case settlement' of None \<Rightarrow> [] | Some s \<Rightarrow> [s])));
              entry = \<lparr>fileloc = fileloc', entry_date = date row, entry_flag = FLAG_IMPORT,
                       payee = None, narration = narration', tags = None, links = None,
                       postings = []\<rparr>;
              account_position' =
                (if symbol row \<noteq> []
                 then Some (account_from_name (name (positions config) @ '':'' @ symbol row))
                 else account_position)
          in bind (add_postings config account_position' descr_amount row entry)
               (\<lambda>(entry', extra_narration). Inr (entry', account_position'))))))"

subsection \<open>The loop over the rows\<close>



section \<open>Notions the properties are stated with\<close>

text \<open>
  The description holds the standalone token \<^verbatim>\<open>DIST\<close>: the four letters, with no word
  character right before or right after them.
\<close>

definition standalone_DIST :: "string \<Rightarrow> bool" where
  "standalone_DIST s =
     (\<exists>pre post. s = pre @ ''DIST'' @ post \<and>
        (pre = [] \<or> \<not> is_word (last pre)) \<and> (post = [] \<or> \<not> is_word (hd post)))"

text \<open>
  The text starts with a dollar amount: a dollar sign, one or more digits or commas, a point
  and one or more digits. A description holds a dollar amount when one of its suffixes
  starts with one.
\<close>

definition starts_with_dollar_amount :: "string \<Rightarrow> bool" where
  "starts_with_dollar_amount t =
     (\<exists>run frac rest. t = ''$'' @ run @ ''.'' @ frac @ rest \<and>
        run \<noteq> [] \<and> list_all is_digit_or_comma run \<and> frac \<noteq> [] \<and> list_all is_digit frac)"

definition has_dollar_amount :: "string \<Rightarrow> bool" where
  "has_dollar_amount s = (\<exists>pre t. s = pre @ t \<and> starts_with_dollar_amount t)"

definition succeeds :: "error + 'a \<Rightarrow> bool" where
  "succeeds m = (case m of Inl e \<Rightarrow> False | Inr x \<Rightarrow> True)"

text \<open>
  The steps of \<^verbatim>\<open>fixup_row\<close> before the action is looked at raise nothing: both dates and the
  three numbers are read, and the division of a quantity in thousandths goes through.
\<close>

definition fields_parse :: "raw_row \<Rightarrow> bool" where
  "fields_parse row =
     succeeds
       (bind (strptime (date row)) (\<lambda>date'.
        bind (strptime (settlement row)) (\<lambda>settlement'.
        bind (decimal (Str (quantity row))) (\<lambda>quantity'.
        bind (decimal (Str (price row))) (\<lambda>price'.
        bind (decimal (Str (amount row))) (\<lambda>amount'.
        (if re_match_1000THS (description row)
         then Decimal_truediv quantity' (Decimal_int 1000)
         else Inr quantity')))))))"

text \<open>The action codes the chain of \<^verbatim>\<open>import_excel_file\<close> names, and the tests of its arms in order.\<close>

definition recognized_actions :: "string list" where
  "recognized_actions =
     [''ADJ RR'', ''RTC RR'', ''EXH AB'', ''DIV F6'', ''Buy'', ''Sell'', ''SEL FF'', ''PUR FF'',
      ''DIST'']"

definition arm_guards :: "(string \<Rightarrow> bool) list" where
  "arm_guards =
     [\<lambda>a. a = ''ADJ RR'', \<lambda>a. a = ''RTC RR'', \<lambda>a. a = ''EXH AB'', \<lambda>a. a = ''DIV F6'',
      \<lambda>a. a \<in> set [''Buy'', ''Sell''], \<lambda>a. a \<in> set [''SEL FF'', ''PUR FF''],
      \<lambda>a. a = ''DIST'']"

text \<open>An account mapping for the examples.\<close>

definition example_config :: config where
  "example_config =
     \<lparr>FILE = Account ''Assets:CA:RBC'', cash = Account ''Assets:CA:RBC:Cash'',
      positions = Account ''Assets:CA:RBC'', fees = Account ''Expenses:Fees'',
      commission = Account ''Expenses:Commissions'', interest = Account ''Income:Interest'',
      dividend = Account ''Income:Dividends'', transfer = Account ''Assets:CA:Checking''\<rparr>"



section \<open>Auxiliary facts\<close>

lemmas dec_eval = Decimal_int_def Decimal_fix_def ndigits.simps reduce_exact.simps prec_def
  Emax_def Emin_def Etiny_def Etop_def Let_def

lemma bind_Inr_iff: "bind m f = Inr y \<longleftrightarrow> (\<exists>x. m = Inr x \<and> f x = Inr y)"
  by (cases m) (simp_all add: bind_def)

lemma bind_Inl_iff: "bind m f = Inl e \<longleftrightarrow> (m = Inl e \<or> (\<exists>x. m = Inr x \<and> f x = Inl e))"
  by (cases m) (simp_all add: bind_def)

lemma bind_Inr [simp]: "bind (Inr x) f = f x"
  by (simp add: bind_def)

lemma bind_Inl [simp]: "bind (Inl e) f = Inl e"
  by (simp add: bind_def)

subsection \<open>The search for the token DIST\<close>

lemma end_boundary: "(case post of [] \<Rightarrow> True | d # r \<Rightarrow> \<not> is_word d) = (post = [] \<or> \<not> is_word (hd post))"
  by (cases post) auto

lemma search_DIST_iff:
  "search_DIST w s =
     (\<exists>pre post. s = pre @ ''DIST'' @ post \<and>
        (if pre = [] then \<not> w else \<not> is_word (last pre)) \<and> (post = [] \<or> \<not> is_word (hd post)))"
proof (induction s arbitrary: w)
  case Nil
  then show ?case by simp
next
  case (Cons c cs)
  show ?case (is "?L = ?R")
  proof
    assume ?L
    then consider (here) "\<not> w" "prefix ''DIST'' (c # cs)"
        "(case drop 4 (c # cs) of [] \<Rightarrow> True | d # r \<Rightarrow> \<not> is_word d)"
      | (later) "search_DIST (is_word c) cs"
      by auto
    then show ?R
    proof cases
      case here
      from here(2) obtain post where p: "c # cs = ''DIST'' @ post" by (auto simp: prefix_def)
      then have "drop 4 (c # cs) = post" by simp
      with here(3) have "post = [] \<or> \<not> is_word (hd post)" by (simp only: end_boundary)
      with p here(1) show ?thesis by (intro exI[of _ "[]"] exI[of _ post]) simp
    next
      case later
      then obtain pre post where
        "cs = pre @ ''DIST'' @ post" "if pre = [] then \<not> is_word c else \<not> is_word (last pre)"
        "post = [] \<or> \<not> is_word (hd post)"
        unfolding Cons.IH by blast
      then show ?thesis
        by (intro exI[of _ "c # pre"] exI[of _ post]) (auto split: if_splits)
    qed
  next
    assume ?R
    then obtain pre post where
      s: "c # cs = pre @ ''DIST'' @ post" and b: "if pre = [] then \<not> w else \<not> is_word (last pre)"
      and e: "post = [] \<or> \<not> is_word (hd post)" by blast
    show ?L
    proof (cases pre)
      case Nil
      with s have "prefix ''DIST'' (c # cs)" "drop 4 (c # cs) = post" by (auto simp: prefix_def)
      with b e Nil show ?thesis by (simp only: search_DIST.simps end_boundary) simp
    next
      case (Cons a pre')
      with s have "cs = pre' @ ''DIST'' @ post" "a = c" by auto
      moreover from b Cons have "if pre' = [] then \<not> is_word c else \<not> is_word (last pre')"
        using \<open>a = c\<close> by (auto split: if_splits)
      ultimately have "search_DIST (is_word c) cs" using e unfolding Cons.IH by blast
      then show ?thesis by simp
    qed
  qed
qed

lemma re_search_DIST_iff: "re_search_DIST s = standalone_DIST s"
  unfolding re_search_DIST_def standalone_DIST_def search_DIST_iff by auto

subsection \<open>Numbers written in plain digits\<close>

lemma digit_not_space: "is_digit c \<Longrightarrow> \<not> is_space c"
  by (auto simp: is_digit_def is_space_def)

lemma digit_lower: "is_digit c \<Longrightarrow> lower c = c"
  by (auto simp: is_digit_def lower_def)

lemma not_digit:
  "\<not> is_digit (CHR ''_'')" "\<not> is_digit (CHR ''-'')" "\<not> is_digit (CHR ''+'')"
  "\<not> is_digit (CHR '','')" "\<not> is_digit (CHR ''.'')" "\<not> is_digit (CHR ''e'')"
  "\<not> is_digit (CHR ''$'')"
  by (simp_all add: is_digit_def)

lemma digit_char_facts:
  "is_digit c \<Longrightarrow> \<not> is_space c \<and> c \<noteq> CHR ''_'' \<and> lower c = c \<and> c \<noteq> CHR ''-'' \<and> c \<noteq> CHR ''+''
     \<and> c \<noteq> CHR '','' \<and> c \<noteq> CHR ''.'' \<and> c \<noteq> CHR ''e''"
  using not_digit by (auto simp: digit_not_space digit_lower)

lemma point_char_facts:
  "\<not> is_space (CHR ''.'') \<and> lower (CHR ''.'') = CHR ''.'' \<and> \<not> is_digit (CHR ''.'')"
  by (simp add: is_digit_def is_space_def lower_def)

lemma strip_id: "s \<noteq> [] \<Longrightarrow> \<not> is_space (hd s) \<Longrightarrow> \<not> is_space (last s) \<Longrightarrow> strip s = s"
proof -
  assume a: "s \<noteq> []" "\<not> is_space (hd s)" "\<not> is_space (last s)"
  then have 1: "dropWhile is_space s = s" by (simp add: dropWhile_eq_self_iff)
  from a have 2: "dropWhile is_space (rev s) = rev s" by (simp add: dropWhile_eq_self_iff hd_rev)
  show ?thesis by (simp add: strip_def 1 2)
qed

lemma parse_number_plain:
  assumes ip: "list_all is_digit ip" and fp: "list_all is_digit fp" and ne: "fp \<noteq> []"
  shows "parse_number (ip @ ''.'' @ fp) = Some (int_of_digits (ip @ fp), - int (length fp))"
proof -
  have t: "takeWhile is_digit (ip @ ''.'' @ fp) = ip" "dropWhile is_digit (ip @ ''.'' @ fp) = ''.'' @ fp"
    using ip by (simp_all add: list_all_iff takeWhile_append2 dropWhile_append2 point_char_facts)
  have f: "takeWhile is_digit fp = fp" "dropWhile is_digit fp = []"
    using fp by (simp_all add: list_all_iff)
  show ?thesis
    unfolding parse_number_def t Let_def using ne by (simp add: f parse_exponent_def)
qed

lemma Decimal_str_clean:
  assumes "strip (c # r) = c # r" "filter (\<lambda>x. x \<noteq> CHR ''_'') (c # r) = c # r"
    "map lower (c # r) = c # r" "c \<noteq> CHR ''-''" "c \<noteq> CHR ''+''"
    "parse_number (c # r) = Some (n, e)"
  shows "Decimal_str (c # r) = Inr (Finite False n e)"
  unfolding Decimal_str_def assms(1) assms(2) assms(3)
  using assms(4-6) by (simp add: Let_def)

lemma Decimal_str_clean':
  assumes ne: "s \<noteq> []"
    and chars: "\<forall>c \<in> set s. \<not> is_space c \<and> c \<noteq> CHR ''_'' \<and> lower c = c \<and> c \<noteq> CHR ''-'' \<and> c \<noteq> CHR ''+''"
    and pn: "parse_number s = Some (n, e)"
  shows "Decimal_str s = Inr (Finite False n e)"
proof -
  from ne have hl: "hd s \<in> set s" "last s \<in> set s" by (rule hd_in_set, rule last_in_set)
  have s1: "strip s = s" using chars hl ne by (intro strip_id) auto
  have s2: "filter (\<lambda>c. c \<noteq> CHR ''_'') s = s" using chars by (intro filter_True) auto
  have s3: "map lower s = s" using chars by (intro map_idI) auto
  obtain c r where cr: "s = c # r" using ne by (cases s) auto
  then have "c \<in> set s" by simp
  then have c: "c \<noteq> CHR ''-''" "c \<noteq> CHR ''+''" using chars by auto
  have "Decimal_str (c # r) = Inr (Finite False n e)"
    using s1 s2 s3 c pn unfolding cr by (rule Decimal_str_clean)
  then show ?thesis by (simp only: cr)
qed

lemma Decimal_str_plain:
  assumes ip: "list_all is_digit ip" and fp: "list_all is_digit fp" and ne: "fp \<noteq> []"
  shows "Decimal_str (ip @ ''.'' @ fp) = Inr (Finite False (int_of_digits (ip @ fp)) (- int (length fp)))"
proof (rule Decimal_str_clean')
  show "ip @ ''.'' @ fp \<noteq> []" by simp
  show "\<forall>c \<in> set (ip @ ''.'' @ fp). \<not> is_space c \<and> c \<noteq> CHR ''_'' \<and> lower c = c \<and> c \<noteq> CHR ''-'' \<and> c \<noteq> CHR ''+''"
  proof
    fix c assume "c \<in> set (ip @ ''.'' @ fp)"
    then have "is_digit c \<or> c = CHR ''.''" using ip fp by (auto simp: list_all_iff)
    then show "\<not> is_space c \<and> c \<noteq> CHR ''_'' \<and> lower c = c \<and> c \<noteq> CHR ''-'' \<and> c \<noteq> CHR ''+''"
      using digit_char_facts[of c] point_char_facts by auto
  qed
  show "parse_number (ip @ ''.'' @ fp) = Some (int_of_digits (ip @ fp), - int (length fp))"
    by (rule parse_number_plain[OF ip fp ne])
qed

lemma parse_number_digits:
  assumes ds: "list_all is_digit ds" and ne: "ds \<noteq> []"
  shows "parse_number ds = Some (int_of_digits ds, 0)"
proof -
  have f: "takeWhile is_digit ds = ds" "dropWhile is_digit ds = []"
    using ds by (simp_all add: list_all_iff)
  show ?thesis
    unfolding parse_number_def f Let_def using ne by (simp add: parse_exponent_def)
qed

lemma Decimal_str_digits:
  assumes ds: "list_all is_digit ds" and ne: "ds \<noteq> []"
  shows "Decimal_str ds = Inr (Finite False (int_of_digits ds) 0)"
proof (rule Decimal_str_clean')
  show "ds \<noteq> []" by (rule ne)
  show "\<forall>c \<in> set ds. \<not> is_space c \<and> c \<noteq> CHR ''_'' \<and> lower c = c \<and> c \<noteq> CHR ''-'' \<and> c \<noteq> CHR ''+''"
    using ds digit_char_facts by (auto simp: list_all_iff)
  show "parse_number ds = Some (int_of_digits ds, 0)"
    by (rule parse_number_digits[OF ds ne])
qed

text \<open>The shape of a match of the amount pattern.\<close>

lemma match_amount_SomeD:
  assumes "match_amount s = Some g"
  shows "\<exists>run frac rest. s = ''$'' @ run @ ''.'' @ frac @ rest \<and> g = run @ ''.'' @ frac \<and>
           run \<noteq> [] \<and> list_all is_digit_or_comma run \<and> frac \<noteq> [] \<and> list_all is_digit frac \<and>
           (rest = [] \<or> \<not> is_digit (hd rest))"
proof -
  from assms obtain t where s: "s = CHR ''$'' # t"
    by (cases s) (auto simp: match_amount_def split: if_splits)
  let ?run = "takeWhile is_digit_or_comma t"
  let ?r = "dropWhile is_digit_or_comma t"
  from assms s have run: "?run \<noteq> []"
    by (auto simp: match_amount_def Let_def split: if_splits)
  from assms s run obtain u where r: "?r = CHR ''.'' # u"
    by (cases ?r) (auto simp: match_amount_def Let_def split: if_splits)
  let ?frac = "takeWhile is_digit u"
  from assms s run r have frac: "?frac \<noteq> []" and g: "g = ?run @ ''.'' @ ?frac"
    by (auto simp: match_amount_def Let_def split: if_splits)
  have "t = ?run @ ?r" by simp
  also have "?r = ''.'' @ u" using r by simp
  also have "u = ?frac @ dropWhile is_digit u" by simp
  finally have t: "t = ?run @ ''.'' @ ?frac @ dropWhile is_digit u" .
  have "dropWhile is_digit u = [] \<or> \<not> is_digit (hd (dropWhile is_digit u))"
    using hd_dropWhile by blast
  moreover have "list_all is_digit_or_comma ?run" "list_all is_digit ?frac"
    by (auto simp: list_all_iff dest: set_takeWhileD)
  ultimately show ?thesis using s t run frac g
    by (intro exI[of _ ?run] exI[of _ ?frac] exI[of _ "dropWhile is_digit u"]) simp
qed

lemma match_amount_SomeI:
  assumes "run \<noteq> []" "list_all is_digit_or_comma run" "frac \<noteq> []" "list_all is_digit frac"
  shows "match_amount (''$'' @ run @ ''.'' @ frac @ rest) = Some (run @ ''.'' @ frac @ takeWhile is_digit rest)"
proof -
  have p: "\<not> is_digit_or_comma (CHR ''.'')" by (simp add: is_digit_or_comma_def is_digit_def)
  have t: "takeWhile is_digit_or_comma (run @ ''.'' @ frac @ rest) = run"
     "dropWhile is_digit_or_comma (run @ ''.'' @ frac @ rest) = ''.'' @ frac @ rest"
    using assms(2) p by (simp_all add: list_all_iff takeWhile_append2 dropWhile_append2)
  have f: "takeWhile is_digit (frac @ rest) = frac @ takeWhile is_digit rest"
    using assms(4) by (simp add: list_all_iff takeWhile_append2)
  show ?thesis
    using assms(1,3) t f by (simp add: match_amount_def Let_def)
qed

lemma decimal_of_amount_group:
  assumes "list_all is_digit_or_comma run" "frac \<noteq> []" "list_all is_digit frac"
  shows "decimal (Str (run @ ''.'' @ frac)) =
           Inr (Finite False (int_of_digits (filter is_digit run @ frac)) (- int (length frac)))"
proof -
  have 1: "filter (\<lambda>c. c \<noteq> CHR '','') run = filter is_digit run"
    using assms(1) not_digit(4) by (intro filter_cong) (auto simp: list_all_iff is_digit_or_comma_def)
  have 2: "filter (\<lambda>c. c \<noteq> CHR '','') frac = frac"
    using assms(3) not_digit(4) by (intro filter_True) (auto simp: list_all_iff)
  have "decimal (Str (run @ ''.'' @ frac)) = Decimal_str (filter is_digit run @ ''.'' @ frac)"
    by (simp add: decimal_def 1 2)
  also have "\<dots> = Inr (Finite False (int_of_digits (filter is_digit run @ frac)) (- int (length frac)))"
    using assms by (intro Decimal_str_plain) (auto simp: list_all_iff)
  finally show ?thesis .
qed

lemma re_search_amount_SomeD:
  "re_search_amount s = Some g \<Longrightarrow> \<exists>t. match_amount t = Some g \<and> suffix t s"
proof (induction s)
  case Nil
  then show ?case by simp
next
  case (Cons c cs)
  show ?case
  proof (cases "match_amount (c # cs)")
    case None
    with Cons.prems have "re_search_amount cs = Some g" by simp
    with Cons.IH obtain t where "match_amount t = Some g" "suffix t cs" by blast
    then show ?thesis by (meson suffix_ConsI)
  next
    case (Some h)
    with Cons.prems have "h = g" by simp
    with Some show ?thesis by (intro exI[of _ "c # cs"]) simp
  qed
qed

lemma description_amount_total: "\<exists>v. description_amount s = Inr v"
proof (cases "re_search_amount s")
  case None
  then show ?thesis by (simp add: description_amount_def)
next
  case (Some g)
  then obtain t where "match_amount t = Some g" using re_search_amount_SomeD by blast
  then obtain run frac where "g = run @ ''.'' @ frac" "list_all is_digit_or_comma run"
      "frac \<noteq> []" "list_all is_digit frac"
    using match_amount_SomeD by blast
  then show ?thesis
    using Some decimal_of_amount_group[of run frac]
    by (simp add: description_amount_def bind_def)
qed

lemma search_shares_SomeD:
  "search_shares w s = Some g \<Longrightarrow> g \<noteq> [] \<and> list_all is_digit g"
proof (induction s arbitrary: w)
  case Nil
  then show ?case by simp
next
  case (Cons c cs)
  show ?case
  proof (cases "if w then None else match_shares (c # cs)")
    case None
    with Cons.prems have "search_shares (is_word c) cs = Some g" by simp
    then show ?thesis by (rule Cons.IH)
  next
    case (Some h)
    with Cons.prems have "h = g" by simp
    with Some have "match_shares (c # cs) = Some g" by (auto split: if_splits)
    then show ?thesis
      by (auto simp: match_shares_def Let_def list_all_iff split: if_splits dest: set_takeWhileD)
  qed
qed

lemma description_shares_total: "\<exists>v. description_shares s = Inr v"
proof (cases "search_shares False s")
  case None
  then show ?thesis by (simp add: description_shares_def)
next
  case (Some g)
  then have g: "g \<noteq> []" "list_all is_digit g" using search_shares_SomeD by blast+
  then have "filter (\<lambda>c. c \<noteq> CHR '','') g = g"
    using not_digit(4) by (intro filter_True) (auto simp: list_all_iff)
  then show ?thesis
    using Some g Decimal_str_digits[of g]
    by (simp add: description_shares_def decimal_def bind_def)
qed

subsection \<open>The exceptions the library operations raise\<close>

lemma strptime_error: "strptime s = Inl e \<Longrightarrow> e = StrptimeValueError"
  by (auto simp: strptime_def Let_def split: if_splits option.splits list.splits prod.splits)

lemma Decimal_str_error: "Decimal_str s = Inl e \<Longrightarrow> e = InvalidOperation"
  by (auto simp: Decimal_str_def Let_def split: if_splits option.splits list.splits prod.splits)

lemma decimal_error: "decimal x = Inl e \<Longrightarrow> e = InvalidOperation"
  by (cases x) (auto simp: decimal_def dest: Decimal_str_error split: if_splits)

lemma Decimal_fix_error: "Decimal_fix d = Inl e \<Longrightarrow> e = Overflow"
  by (cases d) (auto simp: Decimal_fix_def Let_def split: if_splits prod.splits)

lemma check_nans_error: "check_nans a b = Some (Inl e) \<Longrightarrow> e = InvalidOperation \<or> e = Overflow"
  by (induction a b rule: check_nans.induct) (auto dest: Decimal_fix_error)

lemma Decimal_truediv_error:
  "Decimal_truediv a b = Inl e \<Longrightarrow> e = InvalidOperation \<or> e = DivisionByZero \<or> e = Overflow"
  by (induction a b rule: Decimal_truediv.induct)
     (auto simp: Let_def dest: Decimal_fix_error check_nans_error
           split: if_splits prod.splits option.splits decimal.splits)

lemma Decimal_mul_error:
  "Decimal_mul a b = Inl e \<Longrightarrow> e = InvalidOperation \<or> e = Overflow"
  by (induction a b rule: Decimal_mul.induct)
     (auto simp: Let_def dest: Decimal_fix_error check_nans_error
           split: if_splits prod.splits option.splits decimal.splits)

lemma Decimal_neg_error:
  "Decimal_neg a = Inl e \<Longrightarrow> e = InvalidOperation \<or> e = Overflow"
  by (cases a) (auto dest: Decimal_fix_error split: if_splits)

subsection \<open>fixup\_row\<close>

lemma fixup_row_InrD:
  assumes "fixup_row r = Inr c"
  shows "\<exists>d s q p a q'. strptime (date r) = Inr d \<and> strptime (settlement r) = Inr s \<and>
           decimal (Str (quantity r)) = Inr q \<and> decimal (Str (price r)) = Inr p \<and>
           decimal (Str (amount r)) = Inr a \<and>
           (if re_match_1000THS (description r) then Decimal_truediv q (Decimal_int 1000) else Inr q) = Inr q' \<and>
           c = \<lparr>action = (if action r = [] then ''DIST'' else action r), symbol = symbol r,
                 description = description r, date = d, settlement = s, quantity = q',
                 price = p, amount = a, currency = currency r\<rparr> \<and>
           (action r = [] \<longrightarrow> re_search_DIST (description r))"
  using assms
  unfolding fixup_row_def Decimal_eq_str_def
  by (auto simp: bind_Inr_iff Let_def split: if_splits)

subsection \<open>Rows used as examples\<close>

lemma strptime_examples:
  "strptime ''2013-06-01'' = Inr (Date 2013 6 1)"
  "strptime ''2013-06-04'' = Inr (Date 2013 6 4)"
  "strptime ''June 1st'' = Inl StrptimeValueError"
  by code_simp+

lemma decimal_examples:
  "decimal (Str ''10'') = Inr (Finite False 10 0)"
  "decimal (Str ''5000'') = Inr (Finite False 5000 0)"
  "decimal (Str ''5.00'') = Inr (Finite False 500 (- 2))"
  "decimal (Str ''2.50'') = Inr (Finite False 250 (- 2))"
  "decimal (Str ''25.00'') = Inr (Finite False 2500 (- 2))"
  "decimal (Str ''50.00'') = Inr (Finite False 5000 (- 2))"
  "decimal (Str ''0'') = Inr (Finite False 0 0)"
  "decimal (Str []) = Inr (Finite False 0 0)"
  by code_simp+

lemma truediv_examples:
  "Decimal_truediv (Finite False 5000 0) (Decimal_int 1000) = Inr (Finite False 5 0)"
  "Decimal_truediv (Finite False 5 0) (Decimal_int 1000) = Inr (Finite False 5 (- 3))"
  by (simp_all add: dec_eval)

lemmas row_eval = fixup_row_def re_match_1000THS_def Decimal_eq_str_def strptime_examples
  decimal_examples truediv_examples

section \<open>The properties\<close>

subsection \<open>C1: the amount of a row whose amount field is zero\<close>

text \<open>
  C1 says that a row whose amount field reads as zero gets the amount quantity times price.
  \<^verbatim>\<open>fixup_row\<close> tests \<^verbatim>\<open>row.amount == '0'\<close> after the amount has become a \<^verbatim>\<open>Decimal\<close>, and a
  \<^verbatim>\<open>Decimal\<close> never equals a string, so the amount is never recomputed. For the row with
  quantity 10, price 5.00 and amount 0 the fixed-up amount is 0, while quantity times price
  is 50.00.
\<close>

theorem C1_backfill_never_runs:
  "fixup_row \<lparr>action = ''Buy'', symbol = ''XYZ'', description = [], date = ''2013-06-01'',
      settlement = ''2013-06-04'', quantity = ''10'', price = ''5.00'', amount = ''0'',
      currency = ''USD''\<rparr>
   = Inr \<lparr>action = ''Buy'', symbol = ''XYZ'', description = [], date = Date 2013 6 1,
      settlement = Date 2013 6 4, quantity = Finite False 10 0, price = Finite False 500 (- 2),
      amount = Finite False 0 0, currency = ''USD''\<rparr>
   \<and> Decimal_mul (Finite False 10 0) (Finite False 500 (- 2)) = Inr (Finite False 5000 (- 2))"
  by (simp add: row_eval dec_eval)

subsection \<open>C3: quantities in thousandths\<close>

text \<open>
  C3, as amended: for every raw row that \<^verbatim>\<open>fixup_row\<close> accepts, the quantity of the result is
  the quantity read from the text divided by 1000 (the division of \<^verbatim>\<open>Decimal\<close>) when the
  description starts with \<^verbatim>\<open>1000THS\<close>, and the quantity read from the text otherwise.
\<close>

theorem C3_rescale_only_at_start:
  assumes "fixup_row r = Inr c"
  shows "\<exists>q. decimal (Str (quantity r)) = Inr q \<and>
           (if prefix ''1000THS'' (description r)
            then Decimal_truediv q (Decimal_int 1000) = Inr (quantity c)
            else quantity c = q)"
  using fixup_row_InrD[OF assms] by (auto simp: re_match_1000THS_def split: if_splits)

text \<open>
  C3 as stated fails: the description \<^verbatim>\<open>UNITS IN 1000THS\<close> contains the marker, the quantity
  text reads as 5000, 5000 divided by 1000 is 5, and the fixed-up quantity is 5000.
\<close>

theorem C3_counterexample:
  "sublist ''1000THS'' ''UNITS IN 1000THS'' \<and>
   decimal (Str ''5000'') = Inr (Finite False 5000 0) \<and>
   Decimal_truediv (Finite False 5000 0) (Decimal_int 1000) = Inr (Finite False 5 0) \<and>
   fixup_row \<lparr>action = ''Buy'', symbol = ''XYZ'', description = ''UNITS IN 1000THS'',
      date = ''2013-06-01'', settlement = ''2013-06-04'', quantity = ''5000'', price = ''5.00'',
      amount = ''25.00'', currency = ''USD''\<rparr>
   = Inr \<lparr>action = ''Buy'', symbol = ''XYZ'', description = ''UNITS IN 1000THS'',
      date = Date 2013 6 1, settlement = Date 2013 6 4, quantity = Finite False 5000 0,
      price = Finite False 500 (- 2), amount = Finite False 2500 (- 2), currency = ''USD''\<rparr>"
proof -
  have "sublist ''1000THS'' ''UNITS IN 1000THS''" by code_simp
  then show ?thesis by (simp add: row_eval)
qed

text \<open>A row whose description starts with the marker: 5000 thousandths become 5.\<close>

theorem C3_rescale_only_at_start_witness:
  "fixup_row \<lparr>action = ''Buy'', symbol = ''XYZ'', description = ''1000THS OF A UNIT'',
      date = ''2013-06-01'', settlement = ''2013-06-04'', quantity = ''5000'', price = ''5.00'',
      amount = ''25.00'', currency = ''USD''\<rparr>
   = Inr \<lparr>action = ''Buy'', symbol = ''XYZ'', description = ''1000THS OF A UNIT'',
      date = Date 2013 6 1, settlement = Date 2013 6 4, quantity = Finite False 5 0,
      price = Finite False 500 (- 2), amount = Finite False 2500 (- 2), currency = ''USD''\<rparr>
   \<and> (\<exists>q. decimal (Str ''5000'') = Inr q \<and>
          Decimal_truediv q (Decimal_int 1000) = Inr (Finite False 5 0))"
proof -
  have h: "fixup_row \<lparr>action = ''Buy'', symbol = ''XYZ'', description = ''1000THS OF A UNIT'',
      date = ''2013-06-01'', settlement = ''2013-06-04'', quantity = ''5000'', price = ''5.00'',
      amount = ''25.00'', currency = ''USD''\<rparr>
   = Inr \<lparr>action = ''Buy'', symbol = ''XYZ'', description = ''1000THS OF A UNIT'',
      date = Date 2013 6 1, settlement = Date 2013 6 4, quantity = Finite False 5 0,
      price = Finite False 500 (- 2), amount = Finite False 2500 (- 2), currency = ''USD''\<rparr>"
    by (simp add: row_eval)
  from C3_rescale_only_at_start[OF h] h show ?thesis by simp
qed

subsection \<open>C7: the action of a row without an action code\<close>

text \<open>
  C7, as amended: for every raw row with an empty action field, \<^verbatim>\<open>fixup_row\<close> fails with the
  assertion that carries the description exactly when its dates and numbers are read
  without error and the description does not hold the standalone token \<^verbatim>\<open>DIST\<close>; and when
  they are read without error and the description holds the token, the row is accepted
  with the action \<^verbatim>\<open>DIST\<close>. (A date or number that cannot be read raises its own exception
  first.)
\<close>

theorem C7_action_resolution:
  assumes "action r = []"
  shows "(fixup_row r = Inl (AssertionError (Some (description r))) \<longleftrightarrow>
            fields_parse r \<and> \<not> standalone_DIST (description r)) \<and>
         (fields_parse r \<and> standalone_DIST (description r) \<longrightarrow>
            (\<exists>c. fixup_row r = Inr c \<and> action c = ''DIST''))"
  using assms
  unfolding fixup_row_def fields_parse_def succeeds_def Decimal_eq_str_def
    re_search_DIST_iff[symmetric]
  by (auto simp: Let_def bind_def split: sum.splits if_splits
           dest: strptime_error decimal_error Decimal_truediv_error)

text \<open>
  C7 as stated fails: the row below has an empty action field and no token \<^verbatim>\<open>DIST\<close> in its
  description, so its action is still empty after the inference, yet \<^verbatim>\<open>fixup_row\<close> does not
  fail with the assertion on the action: the date is read first and raises the
  \<^verbatim>\<open>ValueError\<close> of \<^verbatim>\<open>strptime\<close>.
\<close>

theorem C7_counterexample:
  "\<not> standalone_DIST ''CASH MOVEMENT'' \<and>
   fixup_row \<lparr>action = [], symbol = [], description = ''CASH MOVEMENT'', date = ''June 1st'',
      settlement = ''2013-06-04'', quantity = ''10'', price = ''5.00'', amount = ''50.00'',
      currency = ''USD''\<rparr> = Inl StrptimeValueError"
proof -
  have "\<not> re_search_DIST ''CASH MOVEMENT''" by code_simp
  then show ?thesis by (simp add: re_search_DIST_iff row_eval)
qed

text \<open>
  Two rows with an empty action field whose dates and numbers are read: one with the token,
  accepted as \<^verbatim>\<open>DIST\<close>, and one without, refused with its description.
\<close>

theorem C7_action_resolution_witness:
  "fields_parse \<lparr>action = [], symbol = ''XYZ'', description = ''QUARTERLY DIST PAID'',
      date = ''2013-06-01'', settlement = ''2013-06-04'', quantity = [], price = ''2.50'',
      amount = ''25.00'', currency = ''USD''\<rparr> \<and>
   standalone_DIST ''QUARTERLY DIST PAID'' \<and>
   (\<exists>c. fixup_row \<lparr>action = [], symbol = ''XYZ'', description = ''QUARTERLY DIST PAID'',
      date = ''2013-06-01'', settlement = ''2013-06-04'', quantity = [], price = ''2.50'',
      amount = ''25.00'', currency = ''USD''\<rparr> = Inr c \<and> action c = ''DIST'') \<and>
   fields_parse \<lparr>action = [], symbol = [], description = ''CASH MOVEMENT'',
      date = ''2013-06-01'', settlement = ''2013-06-04'', quantity = ''10'', price = ''5.00'',
      amount = ''50.00'', currency = ''USD''\<rparr> \<and>
   \<not> standalone_DIST ''CASH MOVEMENT'' \<and>
   fixup_row \<lparr>action = [], symbol = [], description = ''CASH MOVEMENT'',
      date = ''2013-06-01'', settlement = ''2013-06-04'', quantity = ''10'', price = ''5.00'',
      amount = ''50.00'', currency = ''USD''\<rparr> = Inl (AssertionError (Some ''CASH MOVEMENT''))"
proof -
  let ?r1 = "\<lparr>action = [], symbol = ''XYZ'', description = ''QUARTERLY DIST PAID'',
      date = ''2013-06-01'', settlement = ''2013-06-04'', quantity = [], price = ''2.50'',
      amount = ''25.00'', currency = ''USD''\<rparr> :: raw_row"
  let ?r2 = "\<lparr>action = [], symbol = [], description = ''CASH MOVEMENT'',
      date = ''2013-06-01'', settlement = ''2013-06-04'', quantity = ''10'', price = ''5.00'',
      amount = ''50.00'', currency = ''USD''\<rparr> :: raw_row"
  have p1: "fields_parse ?r1" and p2: "fields_parse ?r2"
    by (simp_all add: fields_parse_def succeeds_def row_eval)
  have "re_search_DIST ''QUARTERLY DIST PAID''" "\<not> re_search_DIST ''CASH MOVEMENT''"
    by code_simp+
  then have d1: "standalone_DIST ''QUARTERLY DIST PAID''" and d2: "\<not> standalone_DIST ''CASH MOVEMENT''"
    by (simp_all add: re_search_DIST_iff)
  show ?thesis
    using C7_action_resolution[of ?r1] C7_action_resolution[of ?r2] p1 p2 d1 d2 by simp
qed

subsection \<open>The transaction of one row, unfolded\<close>

lemma synthesize_unfold:
  assumes "description_amount (description row) = Inr da"
  shows "synthesize filename config index ap row =
     bind (add_postings config
             (if symbol row \<noteq> []
              then Some (account_from_name (name (positions config) @ '':'' @ symbol row))
              else ap)
             da row
             \<lparr>fileloc = (filename, index), entry_date = date row, entry_flag = FLAG_IMPORT,
              payee = None,
              narration =
                join '' -- ''
                  (filter (\<lambda>s. s \<noteq> [])
                     ([action row, symbol row, description row] @
                      (if settlement row = date row then []
                       else [''Settlement: '' @ isoformat (settlement row)]))),
              tags = None, links = None, postings = []\<rparr>)
       (\<lambda>(entry', extra_narration).
          Inr (entry',
               if symbol row \<noteq> []
               then Some (account_from_name (name (positions config) @ '':'' @ symbol row))
               else ap))"
  using assms description_shares_total[of "description row"]
  by (auto simp: synthesize_def Let_def)

lemma read_local_simps [simp]:
  "read_local v None = Inl (UnboundLocalError v)" "read_local v (Some x) = Inr x"
  by (simp_all add: read_local_def)

lemma add_postings_ValueError:
  "add_postings config ap da row entry = Inl (ValueError msg) \<longleftrightarrow>
     action row \<notin> set recognized_actions \<and>
     msg = ''Unknown action: '' @ [CHR 0x27] @ action row @ [CHR 0x27]"
  by (cases ap)
     (auto simp: add_postings_def recognized_actions_def Let_def bind_Inl_iff
           dest: Decimal_mul_error Decimal_neg_error split: option.splits if_splits)

lemma add_postings_AssertionError:
  assumes "action row = ''DIV F6''"
  shows "add_postings config ap da row entry = Inl (AssertionError None) \<longleftrightarrow> \<not> truthy da"
  using assms
  by (cases ap; cases da)
     (auto simp: add_postings_def truthy_def Let_def bind_Inl_iff
           dest: Decimal_mul_error Decimal_neg_error)

subsection \<open>C5: the postings of a purchase or a sale\<close>

text \<open>
  C5: for every fixed-up row with the action \<^verbatim>\<open>Buy\<close> or \<^verbatim>\<open>Sell\<close> and a symbol, the transaction
  has exactly two postings, in this order: on the position account of the symbol, the
  quantity in units of the symbol at the unit cost price in the currency of the row; then
  on the cash account, the amount in the currency of the row.
\<close>

theorem C5_buy_sell_postings:
  assumes "action row = ''Buy'' \<or> action row = ''Sell''" and "symbol row \<noteq> []"
  shows "\<exists>entry. synthesize filename config index account_position row =
             Inr (entry, Some (account_from_name (name (positions config) @ '':'' @ symbol row))) \<and>
           postings entry =
             [\<lparr>posting_account = account_from_name (name (positions config) @ '':'' @ symbol row),
               posting_number = quantity row, posting_currency = symbol row,
               posting_cost = Some (price row, currency row)\<rparr>,
              \<lparr>posting_account = cash config, posting_number = amount row,
               posting_currency = currency row, posting_cost = None\<rparr>]"
proof -
  obtain da where da: "description_amount (description row) = Inr da"
    using description_amount_total by blast
  show ?thesis
    using assms
    by (auto simp: synthesize_unfold[OF da] add_postings_def Let_def
          create_simple_posting_def create_simple_posting_with_cost_def)
qed

text \<open>The purchase of 10 XYZ at 5.00 USD for 50.00 USD.\<close>

theorem C5_buy_sell_postings_witness:
  "\<exists>entry. synthesize ''activity.xls'' example_config 0 None
      \<lparr>action = ''Buy'', symbol = ''XYZ'', description = [], date = Date 2013 6 1,
       settlement = Date 2013 6 4, quantity = Finite False 10 0,
       price = Finite False 500 (- 2), amount = Finite False 5000 (- 2), currency = ''USD''\<rparr>
      = Inr (entry, Some (Account ''Assets:CA:RBC:XYZ'')) \<and>
     postings entry =
       [\<lparr>posting_account = Account ''Assets:CA:RBC:XYZ'', posting_number = Finite False 10 0,
         posting_currency = ''XYZ'', posting_cost = Some (Finite False 500 (- 2), ''USD'')\<rparr>,
        \<lparr>posting_account = Account ''Assets:CA:RBC:Cash'',
         posting_number = Finite False 5000 (- 2), posting_currency = ''USD'',
         posting_cost = None\<rparr>]"
  using C5_buy_sell_postings[of
      "\<lparr>action = ''Buy'', symbol = ''XYZ'', description = [], date = Date 2013 6 1,
       settlement = Date 2013 6 4, quantity = Finite False 10 0,
       price = Finite False 500 (- 2), amount = Finite False 5000 (- 2), currency = ''USD''\<rparr>"
      "''activity.xls''" example_config 0 None]
  by (simp add: example_config_def account_from_name_def)

subsection \<open>C6: action codes outside the chain\<close>

text \<open>
  C6: the transaction of a row fails with the \<^verbatim>\<open>ValueError\<close> for an unknown action exactly
  when the action is none of the nine codes of the chain, the message names the action, and
  no entry is made; for each of the nine codes exactly one test of the chain holds.
\<close>

theorem C6_unknown_action:
  "(synthesize filename config index account_position row = Inl (ValueError msg) \<longleftrightarrow>
      action row \<notin> set recognized_actions \<and>
      msg = ''Unknown action: '' @ [CHR 0x27] @ action row @ [CHR 0x27]) \<and>
   (action row \<in> set recognized_actions \<longrightarrow>
      length (filter (\<lambda>g. g (action row)) arm_guards) = 1)"
proof -
  obtain da where da: "description_amount (description row) = Inr da"
    using description_amount_total by blast
  have "synthesize filename config index account_position row = Inl (ValueError msg) \<longleftrightarrow>
      action row \<notin> set recognized_actions \<and>
      msg = ''Unknown action: '' @ [CHR 0x27] @ action row @ [CHR 0x27]"
    unfolding synthesize_unfold[OF da] bind_Inl_iff add_postings_ValueError
    by (auto split: prod.splits)
  moreover have "action row \<in> set recognized_actions \<longrightarrow>
      length (filter (\<lambda>g. g (action row)) arm_guards) = 1"
    by (auto simp: recognized_actions_def arm_guards_def)
  ultimately show ?thesis by blast
qed

text \<open>The action \<^verbatim>\<open>FOO\<close> is refused by name; the action \<^verbatim>\<open>Buy\<close> passes one test.\<close>

theorem C6_unknown_action_witness:
  "synthesize ''activity.xls'' example_config 0 None
      \<lparr>action = ''FOO'', symbol = ''XYZ'', description = [], date = Date 2013 6 1,
       settlement = Date 2013 6 4, quantity = Finite False 10 0,
       price = Finite False 500 (- 2), amount = Finite False 5000 (- 2), currency = ''USD''\<rparr>
     = Inl (ValueError (''Unknown action: '' @ [CHR 0x27] @ ''FOO'' @ [CHR 0x27])) \<and>
   ''Buy'' \<in> set recognized_actions \<and>
   length (filter (\<lambda>g. g ''Buy'') arm_guards) = 1"
proof -
  have 1: "''FOO'' \<notin> set recognized_actions" and 2: "''Buy'' \<in> set recognized_actions"
    by (simp_all add: recognized_actions_def)
  show ?thesis
    using 1 2
      C6_unknown_action[of "''activity.xls''" example_config 0 None
        "\<lparr>action = ''FOO'', symbol = ''XYZ'', description = [], date = Date 2013 6 1,
         settlement = Date 2013 6 4, quantity = Finite False 10 0,
         price = Finite False 500 (- 2), amount = Finite False 5000 (- 2), currency = ''USD''\<rparr>"
        "''Unknown action: '' @ [CHR 0x27] @ ''FOO'' @ [CHR 0x27]"]
      C6_unknown_action[of "''activity.xls''" example_config 0 None
        "\<lparr>action = ''Buy'', symbol = ''XYZ'', description = [], date = Date 2013 6 1,
         settlement = Date 2013 6 4, quantity = Finite False 10 0,
         price = Finite False 500 (- 2), amount = Finite False 5000 (- 2), currency = ''USD''\<rparr>"
        "[]"]
    by simp
qed

subsection \<open>C10: a dividend needs an amount in its description that is not zero\<close>

text \<open>
  C10, as amended: for every fixed-up row with the action \<^verbatim>\<open>DIV F6\<close>, the transaction fails
  with the assertion without a message exactly when the description holds no dollar amount
  or the amount extracted from it, which is the first one from the left, is zero: a first
  amount of zero fails as an absent one does. A zero amount that follows another amount is
  not looked at.
\<close>

theorem C10_div_f6_needs_nonzero_amount:
  assumes "action row = ''DIV F6''"
  shows "synthesize filename config index account_position row = Inl (AssertionError None) \<longleftrightarrow>
           description_amount (description row) = Inr None \<or>
           (\<exists>d. description_amount (description row) = Inr (Some d) \<and> \<not> Decimal_bool d)"
proof -
  obtain da where da: "description_amount (description row) = Inr da"
    using description_amount_total by blast
  have "synthesize filename config index account_position row = Inl (AssertionError None) \<longleftrightarrow>
          \<not> truthy da"
    unfolding synthesize_unfold[OF da] bind_Inl_iff add_postings_AssertionError[OF assms]
    by (auto split: prod.splits)
  then show ?thesis using da by (cases da) (auto simp: truthy_def)
qed

text \<open>A dividend of \<^verbatim>\<open>$0.00\<close> and a dividend without an amount fail alike.\<close>

theorem C10_div_f6_needs_nonzero_amount_witness:
  "description_amount ''DIVIDEND $0.00 PER SHARE'' = Inr (Some (Finite False 0 (- 2))) \<and>
   \<not> Decimal_bool (Finite False 0 (- 2)) \<and>
   synthesize ''activity.xls'' example_config 0 None
      \<lparr>action = ''DIV F6'', symbol = ''XYZ'', description = ''DIVIDEND $0.00 PER SHARE'',
       date = Date 2013 6 1, settlement = Date 2013 6 1, quantity = Finite False 10 0,
       price = Finite False 0 0, amount = Finite False 0 0, currency = ''USD''\<rparr>
     = Inl (AssertionError None) \<and>
   description_amount ''DIVIDEND'' = Inr None \<and>
   synthesize ''activity.xls'' example_config 0 None
      \<lparr>action = ''DIV F6'', symbol = ''XYZ'', description = ''DIVIDEND'',
       date = Date 2013 6 1, settlement = Date 2013 6 1, quantity = Finite False 10 0,
       price = Finite False 0 0, amount = Finite False 0 0, currency = ''USD''\<rparr>
     = Inl (AssertionError None)"
proof -
  have 1: "description_amount ''DIVIDEND $0.00 PER SHARE'' = Inr (Some (Finite False 0 (- 2)))"
    and 2: "description_amount ''DIVIDEND'' = Inr None"
    by code_simp+
  show ?thesis
    using 1 2
      C10_div_f6_needs_nonzero_amount[of
        "\<lparr>action = ''DIV F6'', symbol = ''XYZ'', description = ''DIVIDEND $0.00 PER SHARE'',
         date = Date 2013 6 1, settlement = Date 2013 6 1, quantity = Finite False 10 0,
         price = Finite False 0 0, amount = Finite False 0 0, currency = ''USD''\<rparr>"
        "''activity.xls''" example_config 0 None]
      C10_div_f6_needs_nonzero_amount[of
        "\<lparr>action = ''DIV F6'', symbol = ''XYZ'', description = ''DIVIDEND'',
         date = Date 2013 6 1, settlement = Date 2013 6 1, quantity = Finite False 10 0,
         price = Finite False 0 0, amount = Finite False 0 0, currency = ''USD''\<rparr>"
        "''activity.xls''" example_config 0 None]
    by simp
qed

lemma div_example_parts:
  "description_amount ''DIV $5.00 FEE $0.00'' = Inr (Some (Finite False 500 (- 2)))"
  "description_shares ''DIV $5.00 FEE $0.00'' = Inr None"
  "description_amount ''$0.00'' = Inr (Some (Finite False 0 (- 2)))"
  "sublist ''$0.00'' ''DIV $5.00 FEE $0.00''"
  by code_simp+

text \<open>
  C10 as stated fails: the description below contains the dollar amount \<^verbatim>\<open>$0.00\<close>, which
  reads as zero, but the amount extracted is the first one, 5.00; the assertion holds and
  the transaction is made, with the dividend of 10 times 5.00.
\<close>

theorem C10_counterexample:
  "sublist ''$0.00'' ''DIV $5.00 FEE $0.00'' \<and>
   description_amount ''$0.00'' = Inr (Some (Finite False 0 (- 2))) \<and>
   \<not> Decimal_bool (Finite False 0 (- 2)) \<and>
   synthesize ''activity.xls'' example_config 0 None
      \<lparr>action = ''DIV F6'', symbol = ''XYZ'', description = ''DIV $5.00 FEE $0.00'',
       date = Date 2013 6 1, settlement = Date 2013 6 1, quantity = Finite False 10 0,
       price = Finite False 0 0, amount = Finite False 0 0, currency = ''USD''\<rparr>
   = Inr (\<lparr>fileloc = (''activity.xls'', 0), entry_date = Date 2013 6 1,
           entry_flag = FLAG_IMPORT, payee = None,
           narration = ''DIV F6 -- XYZ -- DIV $5.00 FEE $0.00'', tags = None, links = None,
           postings =
             [\<lparr>posting_account = Account ''Assets:CA:RBC:XYZ'',
               posting_number = Finite False 10 0, posting_currency = ''XYZ'',
               posting_cost = Some (Finite False 500 (- 2), ''USD'')\<rparr>,
              \<lparr>posting_account = Account ''Income:Dividends'',
               posting_number = Finite True 5000 (- 2), posting_currency = ''USD'',
               posting_cost = None\<rparr>]\<rparr>,
          Some (Account ''Assets:CA:RBC:XYZ''))"
  by (simp add: synthesize_def add_postings_def div_example_parts example_config_def
        account_from_name_def create_simple_posting_def create_simple_posting_with_cost_def
        dec_eval)

subsection \<open>C9: the position account of a row without a symbol\<close>



subsection \<open>C2: the rate per share of a distribution\<close>

lemma dist_example_parts:
  "description_amount [] = Inr None" "description_shares [] = Inr None"
  "Decimal_neg (Finite False 2500 (- 2)) = Inr (Finite True 2500 (- 2))"
  "Decimal_to_str (Finite False 250 (- 2)) = ''2.50''"
  by code_simp+

text \<open>
  C2 says that the narration of a \<^verbatim>\<open>DIST\<close> row ends with the price followed by
  \<^verbatim>\<open>per share\<close>. The chain does build that text, in the list \<^verbatim>\<open>extra_narration\<close>, but the
  narration was fixed when the entry was made and the list is never read. For the
  distribution of 25.00 at a rate of 2.50 the narration is \<^verbatim>\<open>DIST\<close>; the chain returns the
  fragment \<^verbatim>\<open>2.50 per share\<close> beside the entry, and the narration does not end with it.
\<close>

theorem C2_per_share_fragment_dropped:
  "synthesize ''activity.xls'' example_config 0 None
      \<lparr>action = ''DIST'', symbol = [], description = [], date = Date 2013 6 1,
       settlement = Date 2013 6 1, quantity = Finite False 0 0,
       price = Finite False 250 (- 2), amount = Finite False 2500 (- 2), currency = ''USD''\<rparr>
   = Inr (\<lparr>fileloc = (''activity.xls'', 0), entry_date = Date 2013 6 1,
           entry_flag = FLAG_IMPORT, payee = None, narration = ''DIST'', tags = None,
           links = None,
           postings =
             [\<lparr>posting_account = Account ''Income:Dividends'',
               posting_number = Finite True 2500 (- 2), posting_currency = ''USD'',
               posting_cost = None\<rparr>,
              \<lparr>posting_account = Account ''Assets:CA:RBC:Cash'',
               posting_number = Finite False 2500 (- 2), posting_currency = ''USD'',
               posting_cost = None\<rparr>]\<rparr>, None)
   \<and> add_postings example_config None None
      \<lparr>action = ''DIST'', symbol = [], description = [], date = Date 2013 6 1,
       settlement = Date 2013 6 1, quantity = Finite False 0 0,
       price = Finite False 250 (- 2), amount = Finite False 2500 (- 2), currency = ''USD''\<rparr>
      \<lparr>fileloc = (''activity.xls'', 0), entry_date = Date 2013 6 1,
           entry_flag = FLAG_IMPORT, payee = None, narration = ''DIST'', tags = None,
           links = None, postings = []\<rparr>
   = Inr (\<lparr>fileloc = (''activity.xls'', 0), entry_date = Date 2013 6 1,
           entry_flag = FLAG_IMPORT, payee = None, narration = ''DIST'', tags = None,
           links = None,
           postings =
             [\<lparr>posting_account = Account ''Income:Dividends'',
               posting_number = Finite True 2500 (- 2), posting_currency = ''USD'',
               posting_cost = None\<rparr>,
              \<lparr>posting_account = Account ''Assets:CA:RBC:Cash'',
               posting_number = Finite False 2500 (- 2), posting_currency = ''USD'',
               posting_cost = None\<rparr>]\<rparr>, [''2.50 per share''])
   \<and> \<not> suffix ''2.50 per share'' ''DIST''"
proof -
  have "\<not> suffix ''2.50 per share'' ''DIST''" by code_simp
  then show ?thesis
    by (simp add: synthesize_def add_postings_def dist_example_parts truthy_def example_config_def
          create_simple_posting_def dec_eval)
qed

subsection \<open>C8: the amount found in the description\<close>

lemma match_amount_iff: "match_amount t \<noteq> None \<longleftrightarrow> starts_with_dollar_amount t"
proof
  assume "match_amount t \<noteq> None"
  then obtain g where "match_amount t = Some g" by blast
  from match_amount_SomeD[OF this] show "starts_with_dollar_amount t"
    unfolding starts_with_dollar_amount_def by blast
next
  assume "starts_with_dollar_amount t"
  then obtain run frac rest where "t = ''$'' @ run @ ''.'' @ frac @ rest"
      "run \<noteq> []" "list_all is_digit_or_comma run" "frac \<noteq> []" "list_all is_digit frac"
    unfolding starts_with_dollar_amount_def by blast
  then show "match_amount t \<noteq> None" using match_amount_SomeI[of run frac rest] by simp
qed

lemma starts_with_dollar_amount_Nil [simp]: "\<not> starts_with_dollar_amount []"
  by (simp add: starts_with_dollar_amount_def)

lemma has_dollar_amount_Nil [simp]: "\<not> has_dollar_amount []"
  by (simp add: has_dollar_amount_def)

lemma has_dollar_amount_Cons: "has_dollar_amount (c # cs) \<longleftrightarrow> starts_with_dollar_amount (c # cs) \<or> has_dollar_amount cs"
proof
  assume "has_dollar_amount (c # cs)"
  then obtain pre t where s: "c # cs = pre @ t" and t: "starts_with_dollar_amount t"
    unfolding has_dollar_amount_def by blast
  show "starts_with_dollar_amount (c # cs) \<or> has_dollar_amount cs"
  proof (cases pre)
    case Nil
    with s t show ?thesis by simp
  next
    case (Cons a pre')
    with s have "cs = pre' @ t" by simp
    with t show ?thesis unfolding has_dollar_amount_def by blast
  qed
next
  assume "starts_with_dollar_amount (c # cs) \<or> has_dollar_amount cs"
  then show "has_dollar_amount (c # cs)"
  proof
    assume "starts_with_dollar_amount (c # cs)"
    then show ?thesis unfolding has_dollar_amount_def by (intro exI[of _ "[]"] exI[of _ "c # cs"]) simp
  next
    assume "has_dollar_amount cs"
    then obtain pre t where "cs = pre @ t" "starts_with_dollar_amount t"
      unfolding has_dollar_amount_def by blast
    then show ?thesis unfolding has_dollar_amount_def by (intro exI[of _ "c # pre"] exI[of _ t]) simp
  qed
qed

lemma re_search_amount_None_iff: "re_search_amount s = None \<longleftrightarrow> \<not> has_dollar_amount s"
proof (induction s)
  case Nil
  show ?case by simp
next
  case (Cons c cs)
  show ?case
  proof (cases "match_amount (c # cs)")
    case None
    then have "\<not> starts_with_dollar_amount (c # cs)" using match_amount_iff by blast
    with None Cons.IH show ?thesis by (simp add: has_dollar_amount_Cons)
  next
    case (Some g)
    then have "starts_with_dollar_amount (c # cs)" using match_amount_iff[of "c # cs"] by simp
    with Some show ?thesis by (simp add: has_dollar_amount_Cons)
  qed
qed

lemma re_search_amount_leftmost:
  "re_search_amount s = Some g \<Longrightarrow>
     \<exists>pre t. s = pre @ t \<and> match_amount t = Some g \<and>
       (\<forall>p1 p2. pre = p1 @ p2 \<and> p2 \<noteq> [] \<longrightarrow> \<not> starts_with_dollar_amount (p2 @ t))"
proof (induction s)
  case Nil
  then show ?case by simp
next
  case (Cons c cs)
  show ?case
  proof (cases "match_amount (c # cs)")
    case (Some h)
    with Cons.prems have "h = g" by simp
    with Some show ?thesis by (intro exI[of _ "[]"] exI[of _ "c # cs"]) simp
  next
    case None
    then have here: "\<not> starts_with_dollar_amount (c # cs)" using match_amount_iff by blast
    from None Cons.prems have "re_search_amount cs = Some g" by simp
    from Cons.IH[OF this] obtain pre t where
      cs: "cs = pre @ t" and m: "match_amount t = Some g"
      and l: "\<forall>p1 p2. pre = p1 @ p2 \<and> p2 \<noteq> [] \<longrightarrow> \<not> starts_with_dollar_amount (p2 @ t)" by blast
    have "\<forall>p1 p2. c # pre = p1 @ p2 \<and> p2 \<noteq> [] \<longrightarrow> \<not> starts_with_dollar_amount (p2 @ t)"
    proof (intro allI impI)
      fix p1 p2 assume a: "c # pre = p1 @ p2 \<and> p2 \<noteq> []"
      show "\<not> starts_with_dollar_amount (p2 @ t)"
      proof (cases p1)
        case Nil
        with a cs here show ?thesis by auto
      next
        case (Cons x p1')
        with a have "pre = p1' @ p2 \<and> p2 \<noteq> []" by simp
        with l show ?thesis by blast
      qed
    qed
    with cs m show ?thesis by (intro exI[of _ "c # pre"] exI[of _ t]) simp
  qed
qed

text \<open>
  C8, as amended: the amount of the description is absent exactly when the description
  holds no dollar sign followed by one or more digits or commas, a point and one or more
  digits; the fraction may have any number of digits. When it is present it comes from the
  first place of the description where such an amount starts, with all the digits that
  follow the point, and it is the number that the digits before the point (the commas left
  out) and the digits after it write. The extraction raises nothing.
\<close>

theorem C8_description_amount:
  "(description_amount s = Inr None \<longleftrightarrow> \<not> has_dollar_amount s) \<and>
   (\<forall>d. description_amount s = Inr (Some d) \<longrightarrow>
      (\<exists>pre run frac post.
         s = pre @ ''$'' @ run @ ''.'' @ frac @ post \<and>
         run \<noteq> [] \<and> list_all is_digit_or_comma run \<and> frac \<noteq> [] \<and> list_all is_digit frac \<and>
         (post = [] \<or> \<not> is_digit (hd post)) \<and>
         (\<forall>p1 p2. pre = p1 @ p2 \<and> p2 \<noteq> [] \<longrightarrow>
            \<not> starts_with_dollar_amount (p2 @ ''$'' @ run @ ''.'' @ frac @ post)) \<and>
         d = Finite False (int_of_digits (filter is_digit run @ frac)) (- int (length frac)))) \<and>
   (\<forall>e. description_amount s \<noteq> Inl e)"
proof (cases "re_search_amount s")
  case None
  then have "\<not> has_dollar_amount s" using re_search_amount_None_iff by blast
  with None show ?thesis by (simp add: description_amount_def)
next
  case (Some g)
  then have h: "has_dollar_amount s" using re_search_amount_None_iff[of s] by simp
  from re_search_amount_leftmost[OF Some] obtain pre t where
    s: "s = pre @ t" and m: "match_amount t = Some g"
    and l: "\<forall>p1 p2. pre = p1 @ p2 \<and> p2 \<noteq> [] \<longrightarrow> \<not> starts_with_dollar_amount (p2 @ t)" by blast
  from match_amount_SomeD[OF m] obtain run frac post where
    t: "t = ''$'' @ run @ ''.'' @ frac @ post" and g: "g = run @ ''.'' @ frac"
    and r: "run \<noteq> []" "list_all is_digit_or_comma run" "frac \<noteq> []" "list_all is_digit frac"
      "post = [] \<or> \<not> is_digit (hd post)" by blast
  have d: "description_amount s =
      Inr (Some (Finite False (int_of_digits (filter is_digit run @ frac)) (- int (length frac))))"
    using Some g decimal_of_amount_group[OF r(2,3,4)] by (simp add: description_amount_def)
  have "\<exists>pre run' frac' post'.
         s = pre @ ''$'' @ run' @ ''.'' @ frac' @ post' \<and>
         run' \<noteq> [] \<and> list_all is_digit_or_comma run' \<and> frac' \<noteq> [] \<and> list_all is_digit frac' \<and>
         (post' = [] \<or> \<not> is_digit (hd post')) \<and>
         (\<forall>p1 p2. pre = p1 @ p2 \<and> p2 \<noteq> [] \<longrightarrow>
            \<not> starts_with_dollar_amount (p2 @ ''$'' @ run' @ ''.'' @ frac' @ post')) \<and>
         Finite False (int_of_digits (filter is_digit run @ frac)) (- int (length frac)) =
           Finite False (int_of_digits (filter is_digit run' @ frac')) (- int (length frac'))"
    using s t r l by (intro exI[of _ pre] exI[of _ run] exI[of _ frac] exI[of _ post]) simp
  with d h show ?thesis by simp
qed

text \<open>
  C8 as stated fails: amounts whose fraction has one digit or three digits are returned,
  not left out.
\<close>

theorem C8_counterexample:
  "description_amount ''FEE $5.5 CHARGED'' = Inr (Some (Finite False 55 (- 1))) \<and>
   description_amount ''FEE $1.234 CHARGED'' = Inr (Some (Finite False 1234 (- 3)))"
  by code_simp

text \<open>An amount with a thousands separator.\<close>

theorem C8_description_amount_witness:
  "description_amount ''PAID $1,234.50 ON 10 SHS'' = Inr (Some (Finite False 123450 (- 2))) \<and>
   has_dollar_amount ''PAID $1,234.50 ON 10 SHS'' \<and>
   (\<exists>pre run frac post.
      ''PAID $1,234.50 ON 10 SHS'' = pre @ ''$'' @ run @ ''.'' @ frac @ post \<and>
      run \<noteq> [] \<and> list_all is_digit_or_comma run \<and> frac \<noteq> [] \<and> list_all is_digit frac \<and>
      (post = [] \<or> \<not> is_digit (hd post)) \<and>
      (\<forall>p1 p2. pre = p1 @ p2 \<and> p2 \<noteq> [] \<longrightarrow>
         \<not> starts_with_dollar_amount (p2 @ ''$'' @ run @ ''.'' @ frac @ post)) \<and>
      Finite False 123450 (- 2) =
        Finite False (int_of_digits (filter is_digit run @ frac)) (- int (length frac)))"
proof -
  have g: "re_search_amount ''PAID $1,234.50 ON 10 SHS'' = Some ''1,234.50''"
    by code_simp
  have n: "decimal (Str ''1,234.50'') = Inr (Finite False 123450 (- 2))"
    using decimal_of_amount_group[of "''1,234''" "''50''"]
    by (simp add: is_digit_or_comma_def is_digit_def int_of_digits_def digit_val_def)
  have d: "description_amount ''PAID $1,234.50 ON 10 SHS'' = Inr (Some (Finite False 123450 (- 2)))"
    unfolding description_amount_def g by (simp add: n)
  have "description_amount ''PAID $1,234.50 ON 10 SHS'' \<noteq> Inr None"
    unfolding d by simp
  then have h: "has_dollar_amount ''PAID $1,234.50 ON 10 SHS''"
    unfolding C8_description_amount[THEN conjunct1] by (rule notnotD)
  note e = C8_description_amount[THEN conjunct2, THEN conjunct1, rule_format, OF d]
  show ?thesis by (rule conjI[OF d conjI[OF h e]])
qed

subsection \<open>Rendering a number and reading it back\<close>












text \<open>What \<^verbatim>\<open>Decimal(s)\<close> makes of an optional minus sign followed by digits, a fraction and an exponent.\<close>

lemma lower_minus [simp]: "lower (CHR ''-'') = CHR ''-''"
  by (simp add: lower_def)

lemma minus_not_space [simp]: "\<not> is_space (CHR ''-'')"
  by (simp add: is_space_def)





















subsection \<open>Rendering a date and reading it back\<close>

















subsection \<open>C4: normalizing a normalized row again\<close>






end
